theory Spec2Isabelle
  imports Complex_Main "HOL-Library.AList"
begin

section \<open>Data model\<close>

text \<open>
  The repository holds two variants of the data hook \<open>useMockData\<close>:
  \<open>src/hooks/useMockData.ts\<close> (functions suffixed \<open>_hooks\<close> below) and
  \<open>src/unnamed/part_002\<close> (functions suffixed \<open>_part002\<close>).  Both are embedded.

  Modelled from the spec: the types of \<open>types.ts\<close>, which is not among the sources, as
  section 3 of the specification describes them and as the two hooks use them.
  \<open>CallStatus\<close> and \<open>SemaphoreStatus\<close> are its enums.  \<open>CallType\<close> is a string enum: the
  hooks only ever use its values as object keys and compare them with \<open>===\<close>.  The
  fields \<open>id\<close> and \<open>type\<close> of a call are \<open>call_id\<close> and \<open>call_type\<close> here.  Timestamps
  are epoch milliseconds (\<open>Date.now()\<close>), the thresholds of \<open>Settings\<close> are integers;
  JavaScript's double arithmetic is read as exact arithmetic on the reals.
\<close>

datatype CallStatus = SENT | VIEWED | ATTENDED | CANCELED

datatype SemaphoreStatus = IDLE | GREEN | YELLOW | RED

type_synonym CallType = string

record Call =
  call_id :: string
  call_type :: CallType
  status :: CallStatus
  createdAt :: int

record Table =
  number :: string
  calls :: "Call list"

record Settings =
  totalTables :: int
  timeGreen :: int
  timeYellow :: int
  qtyGreen :: int
  qtyYellow :: int

section \<open>EscalationCalculator\<close>

subsection \<open>src/hooks/useMockData.ts\<close>

text \<open>
  \<open>getTableSemaphoreStatus\<close>, lines 433-441.  \<open>now\<close> is the value of \<open>Date.now()\<close>.
  \<open>active.reduce((a, b) => a.createdAt < b.createdAt ? a : b)\<close> has no initial value: it
  folds from the first element, and is only reached on a non-empty array.
\<close>

definition getTableSemaphoreStatus_hooks :: "int \<Rightarrow> Table \<Rightarrow> Settings \<Rightarrow> SemaphoreStatus" where
  "getTableSemaphoreStatus_hooks now table settings =
     (let active = filter (\<lambda>c. status c = SENT \<or> status c = VIEWED) (calls table) in
      case active of
        [] \<Rightarrow> IDLE
      | first # rest \<Rightarrow>
          let oldest = foldl (\<lambda>a b. if createdAt a < createdAt b then a else b) first rest;
              elapsed = real_of_int (now - createdAt oldest) / 1000
          in if elapsed > real_of_int (timeYellow settings) then RED
             else if elapsed > real_of_int (timeGreen settings) then YELLOW
             else GREEN)"

text \<open>
  \<open>getCallTypeSemaphoreStatus\<close>, lines 442-449: \<open>oldest\<close> is \<open>active[0]\<close>, and there is no
  YELLOW branch.
\<close>

definition getCallTypeSemaphoreStatus_hooks ::
    "int \<Rightarrow> Table \<Rightarrow> CallType \<Rightarrow> Settings \<Rightarrow> SemaphoreStatus" where
  "getCallTypeSemaphoreStatus_hooks now table ty settings =
     (let active = filter (\<lambda>c. call_type c = ty \<and> (status c = SENT \<or> status c = VIEWED))
                     (calls table) in
      case active of
        [] \<Rightarrow> IDLE
      | oldest # rest \<Rightarrow>
          let elapsed = real_of_int (now - createdAt oldest) / 1000
          in if elapsed > real_of_int (timeYellow settings) then RED
             else GREEN)"

subsection \<open>src/unnamed/part_002\<close>

text \<open>
  The \<open>reduce\<close> that builds \<open>callsByType\<close> (lines 504-507): the accumulator object is an
  association list in insertion order, \<open>acc[call.type] || 0\<close> reads a missing key as 0.
\<close>

definition callsByType :: "Call list \<Rightarrow> (CallType \<times> nat) list" where
  "callsByType activeCalls =
     foldl (\<lambda>acc call.
              AList.update (call_type call)
                ((case map_of acc (call_type call) of None \<Rightarrow> 0 | Some n \<Rightarrow> n) + 1) acc)
           [] activeCalls"

text \<open>\<open>getTableSemaphoreStatus\<close>, lines 492-516.\<close>

definition getTableSemaphoreStatus_part002 :: "int \<Rightarrow> Table \<Rightarrow> Settings \<Rightarrow> SemaphoreStatus" where
  "getTableSemaphoreStatus_part002 now table settings =
     (let activeCalls = filter (\<lambda>c. status c \<noteq> ATTENDED \<and> status c \<noteq> CANCELED) (calls table) in
      case activeCalls of
        [] \<Rightarrow> IDLE
      | first # rest \<Rightarrow>
          let oldestCall = foldl (\<lambda>oldest current.
                                    if createdAt current < createdAt oldest then current else oldest)
                                 first rest;
              timeElapsed = real_of_int (now - createdAt oldestCall) / 1000;
              isRedByTime = (timeElapsed > real_of_int (timeYellow settings));
              isYellowByTime = (timeElapsed > real_of_int (timeGreen settings)
                                \<and> timeElapsed \<le> real_of_int (timeYellow settings));
              counts = map snd (callsByType activeCalls);
              isRedByQty = list_ex (\<lambda>count. int count > qtyYellow settings) counts;
              isYellowByQty = list_ex (\<lambda>count. int count > qtyGreen settings
                                                \<and> int count \<le> qtyYellow settings) counts
          in if isRedByTime \<or> isRedByQty then RED
             else if isYellowByTime \<or> isYellowByQty then YELLOW
             else GREEN)"

text \<open>
  \<open>getCallTypeSemaphoreStatus\<close>, lines 518-537.  Here \<open>reduce\<close> is given the initial value
  \<open>callsOfType[0]\<close>, so it folds over the whole array.
\<close>

definition getCallTypeSemaphoreStatus_part002 ::
    "int \<Rightarrow> Table \<Rightarrow> CallType \<Rightarrow> Settings \<Rightarrow> SemaphoreStatus" where
  "getCallTypeSemaphoreStatus_part002 now table callType settings =
     (let callsOfType = filter (\<lambda>c. call_type c = callType \<and> (status c = SENT \<or> status c = VIEWED))
                          (calls table) in
      case callsOfType of
        [] \<Rightarrow> IDLE
      | first # rest \<Rightarrow>
          let oldestCall = foldl (\<lambda>oldest current.
                                    if createdAt current < createdAt oldest then current else oldest)
                                 first callsOfType;
              timeElapsed = real_of_int (now - createdAt oldestCall) / 1000;
              isRedByTime = (timeElapsed > real_of_int (timeYellow settings));
              isYellowByTime = (timeElapsed > real_of_int (timeGreen settings)
                                \<and> timeElapsed \<le> real_of_int (timeYellow settings));
              isRedByQty = (int (length callsOfType) > qtyYellow settings);
              isYellowByQty = (int (length callsOfType) > qtyGreen settings
                               \<and> int (length callsOfType) \<le> qtyYellow settings)
          in if isRedByTime \<or> isRedByQty then RED
             else if isYellowByTime \<or> isYellowByQty then YELLOW
             else GREEN)"

subsection \<open>The rule as the specification words it\<close>

text \<open>
  An active call has status SENT or VIEWED.  \<open>elapsedOf\<close> is the time in seconds since the
  oldest (minimum \<open>createdAt\<close>) call of a non-empty list, \<open>countOfType\<close> the number of calls
  of one type, \<open>maxCount\<close> the largest such number over the types present.
\<close>

definition isActive :: "Call \<Rightarrow> bool" where
  "isActive c = (status c = SENT \<or> status c = VIEWED)"

definition activeCalls :: "Table \<Rightarrow> Call list" where
  "activeCalls table = filter isActive (calls table)"

definition elapsedOf :: "int \<Rightarrow> Call list \<Rightarrow> real" where
  "elapsedOf now cs = real_of_int (now - Min (createdAt ` set cs)) / 1000"

definition countOfType :: "CallType \<Rightarrow> Call list \<Rightarrow> nat" where
  "countOfType ty cs = length (filter (\<lambda>c. call_type c = ty) cs)"

definition maxCount :: "Call list \<Rightarrow> int" where
  "maxCount cs = Max ((\<lambda>ty. int (countOfType ty cs)) ` call_type ` set cs)"

text \<open>Steps 1-7 of the algorithm of \<open>tableStatus\<close> (time and quantity combined by OR).\<close>

definition tableStatus :: "int \<Rightarrow> Table \<Rightarrow> Settings \<Rightarrow> SemaphoreStatus" where
  "tableStatus now table settings =
     (let active = activeCalls table in
      if active = [] then IDLE
      else if elapsedOf now active > real_of_int (timeYellow settings)
              \<or> maxCount active > qtyYellow settings then RED
      else if (real_of_int (timeGreen settings) < elapsedOf now active
                 \<and> elapsedOf now active \<le> real_of_int (timeYellow settings))
              \<or> (qtyGreen settings < maxCount active \<and> maxCount active \<le> qtyYellow settings)
           then YELLOW
      else GREEN)"

text \<open>The time rule alone, relative to the oldest call of a list of calls.\<close>

definition timeRule :: "int \<Rightarrow> Call list \<Rightarrow> Settings \<Rightarrow> SemaphoreStatus" where
  "timeRule now active settings =
     (if active = [] then IDLE
      else if elapsedOf now active > real_of_int (timeYellow settings) then RED
      else if real_of_int (timeGreen settings) < elapsedOf now active
              \<and> elapsedOf now active \<le> real_of_int (timeYellow settings) then YELLOW
      else GREEN)"

text \<open>The urgency order IDLE < GREEN < YELLOW < RED.\<close>

fun urgency :: "SemaphoreStatus \<Rightarrow> nat" where
  "urgency IDLE = 0"
| "urgency GREEN = 1"
| "urgency YELLOW = 2"
| "urgency RED = 3"

section \<open>RemoteStore\<close>

text \<open>
  The remote store (Supabase) is an external collaborator.  Its tables are lists of rows;
  a query is a function of the rows.  \<open>DBCall\<close> is the interface of that name in both
  hooks, \<open>DBEstablishment\<close> the one of part_002 with the \<open>is_open\<close> column that
  \<open>src/hooks/useMockData.ts\<close> also selects; \<open>settings\<close> and \<open>is_open\<close> may be null.
  \<open>customer_favorites\<close> holds pairs (user_id, establishment_id).
\<close>

record DBCall =
  dbc_id :: string
  establishment_id :: string
  table_number :: string
  dbc_type :: CallType
  dbc_status :: CallStatus
  created_at_ts :: int

record DBEstablishment =
  db_id :: string
  owner_id :: string
  db_name :: string
  db_phone :: string
  photo_url :: string
  db_phrase :: string
  is_open :: "bool option"
  db_settings :: "Settings option"

record Remote =
  establishments_rows :: "DBEstablishment list"
  calls_rows :: "DBCall list"
  customer_favorites :: "(string \<times> string) list"

text \<open>
  What an awaited query gives back: \<open>{data, error}\<close> with a row (\<open>Data\<close>), with neither
  (\<open>NoData\<close>: \<open>maybeSingle\<close> found no row), with an error and its code (\<open>Failed\<close>), or a
  rejected promise (\<open>Rejected\<close>): the timer of \<open>withTimeout\<close> (8000 ms by default) won the
  \<open>Promise.race\<close>, or the request threw.
\<close>

datatype 'a Reply = Data 'a | NoData | Failed string | Rejected

definition fetchFailed :: "'a Reply \<Rightarrow> bool" where
  "fetchFailed r = (case r of Data x \<Rightarrow> False | NoData \<Rightarrow> True | Failed code \<Rightarrow> True | Rejected \<Rightarrow> True)"

text \<open>The queries of a reachable store.\<close>

definition selectEstablishment :: "Remote \<Rightarrow> string \<Rightarrow> DBEstablishment Reply" where
  "selectEstablishment remote estId =
     (case filter (\<lambda>r. db_id r = estId) (establishments_rows remote) of
        [] \<Rightarrow> NoData
      | [r] \<Rightarrow> Data r
      | r # r' # rs \<Rightarrow> Failed ''PGRST116'')"

definition selectEstablishmentByOwner :: "Remote \<Rightarrow> string \<Rightarrow> DBEstablishment Reply" where
  "selectEstablishmentByOwner remote uid =
     (case filter (\<lambda>r. owner_id r = uid) (establishments_rows remote) of
        [] \<Rightarrow> NoData
      | [r] \<Rightarrow> Data r
      | r # r' # rs \<Rightarrow> Failed ''PGRST116'')"

text \<open>
  \<open>src/hooks/useMockData.ts\<close> line 214 selects the calls of an establishment whose
  status is SENT or VIEWED; part_002 line 146 selects all calls of the establishment.
\<close>

definition selectCalls_hooks :: "Remote \<Rightarrow> string \<Rightarrow> DBCall list Reply" where
  "selectCalls_hooks remote estId =
     Data (filter (\<lambda>c. establishment_id c = estId \<and> (dbc_status c = SENT \<or> dbc_status c = VIEWED))
             (calls_rows remote))"

definition selectCalls_part002 :: "Remote \<Rightarrow> string \<Rightarrow> DBCall list Reply" where
  "selectCalls_part002 remote estId =
     Data (filter (\<lambda>c. establishment_id c = estId) (calls_rows remote))"

section \<open>EstablishmentCache and SyncEngine\<close>

text \<open>
  Modelled from the spec: \<open>Role\<close>, \<open>User\<close>, \<open>CustomerProfile\<close> and \<open>Establishment\<close> are
  the types of \<open>types.ts\<close> (section 3 of the specification) with the fields the hooks
  read and write (\<open>email\<close>, \<open>password\<close>, \<open>status\<close>, \<open>phone\<close> and \<open>cep\<close> of
  the user and the profile play no part in the functions below).  \<open>OTHER_ROLE\<close> stands for
  any role that is neither ESTABLISHMENT nor CUSTOMER.  \<open>tables\<close> is a
  \<open>Map<string, Table>\<close>.  part_002 builds its aggregate without \<open>isOpen\<close>, hence the option.
\<close>

datatype Role = ESTABLISHMENT | CUSTOMER | OTHER_ROLE

record User =
  user_id :: string
  user_name :: string
  role :: Role
  establishmentId :: "string option"

record CustomerProfile =
  userId :: string
  favoritedEstablishmentIds :: "string list"

record Establishment =
  est_id :: string
  ownerId :: string
  est_name :: string
  phone :: string
  photoUrl :: string
  phrase :: string
  settings :: Settings
  tables :: "string \<rightharpoonup> Table"
  eventLog :: "string list"
  isOpen :: "bool option"

type_synonym Cache = "string \<rightharpoonup> Establishment"

text \<open>\<open>i.toString()\<close> for a loop index: the decimal digits.\<close>

definition digitChar :: "nat \<Rightarrow> char" where
  "digitChar d = ''0123456789'' ! d"

function toString :: "nat \<Rightarrow> string" where
  "toString n = (if n < 10 then [digitChar n] else toString (n div 10) @ [digitChar (n mod 10)])"
  by pat_completeness auto
termination
  by (relation "measure (\<lambda>n. n)") auto

text \<open>
  Lines 216-224 of \<open>src/hooks/useMockData.ts\<close> (149-163 of part_002): the \<open>forEach\<close> that
  groups the fetched calls by table number, each call appended to its table
  (\<open>addCallToTable\<close> is the body of the \<open>forEach\<close>).
\<close>

definition toCall :: "DBCall \<Rightarrow> Call" where
  "toCall c = \<lparr>call_id = dbc_id c, call_type = dbc_type c, status = dbc_status c,
               createdAt = created_at_ts c\<rparr>"

definition addCallToTable :: "(string \<rightharpoonup> Table) \<Rightarrow> DBCall \<Rightarrow> (string \<rightharpoonup> Table)" where
  "addCallToTable tablesMap c =
     (let existing = (case tablesMap (table_number c) of
                        Some t \<Rightarrow> t
                      | None \<Rightarrow> \<lparr>number = table_number c, calls = []\<rparr>)
      in tablesMap(table_number c \<mapsto> existing\<lparr>calls := calls existing @ [toCall c]\<rparr>))"

definition groupCalls :: "DBCall list \<Rightarrow> (string \<rightharpoonup> Table)" where
  "groupCalls cs = foldl addCallToTable Map.empty cs"

text \<open>
  Lines 226-230 (166-174 of part_002): \<open>est.settings?.totalTables || DEFAULT_SETTINGS.totalTables\<close>
  takes the default when the settings are null or their \<open>totalTables\<close> is 0; the loop runs
  \<open>i\<close> from 1 to \<open>totalTables\<close> and adds an empty table where the key \<open>i.toString()\<close> is
  missing (\<open>ensureTable\<close> is the body of the loop).  \<open>DEFAULT_SETTINGS\<close> is a constant
  of \<open>constants.ts\<close>, which is not among the sources: a parameter here.
\<close>

definition effectiveTotalTables :: "Settings \<Rightarrow> Settings option \<Rightarrow> int" where
  "effectiveTotalTables DEFAULT_SETTINGS st =
     (case st of
        None \<Rightarrow> totalTables DEFAULT_SETTINGS
      | Some s \<Rightarrow> if totalTables s = 0 then totalTables DEFAULT_SETTINGS else totalTables s)"

definition ensureTable :: "nat \<Rightarrow> (string \<rightharpoonup> Table) \<Rightarrow> (string \<rightharpoonup> Table)" where
  "ensureTable i tablesMap =
     (let num = toString i
      in if tablesMap num = None then tablesMap(num \<mapsto> \<lparr>number = num, calls = []\<rparr>)
         else tablesMap)"

definition ensureTables :: "int \<Rightarrow> (string \<rightharpoonup> Table) \<Rightarrow> (string \<rightharpoonup> Table)" where
  "ensureTables totalCount tablesMap = fold ensureTable [1 ..< Suc (nat totalCount)] tablesMap"

definition buildTables :: "Settings \<Rightarrow> Settings option \<Rightarrow> DBCall list Reply \<Rightarrow> (string \<rightharpoonup> Table)" where
  "buildTables DEFAULT_SETTINGS st callsReply =
     ensureTables (effectiveTotalTables DEFAULT_SETTINGS st)
       (case callsReply of Data cs \<Rightarrow> groupCalls cs | NoData \<Rightarrow> Map.empty
        | Failed code \<Rightarrow> Map.empty | Rejected \<Rightarrow> Map.empty)"

subsection \<open>loadEstablishmentData, src/hooks/useMockData.ts lines 175-244\<close>

text \<open>
  The function is a closure of the hook: \<open>currentUser\<close> and \<open>establishments\<close> are the
  values of the React state in the render that created the closure, while
  \<open>setEstablishments(prev => ...)\<close> is applied to the state at the time of the call
  (\<open>prev\<close>).  The model returns the new state and the returned value (\<open>None\<close> for null).
  It is the function for a configured client: with \<open>getSb()\<close> null it returns null at once.
  A rejected promise at either \<open>await\<close> ends in the \<open>catch\<close> (return null).  The
  phrase of the fallback object is written here without its cedilla and tilde.
\<close>

definition fallbackEst :: "Settings \<Rightarrow> User \<Rightarrow> string \<Rightarrow> Establishment" where
  "fallbackEst DEFAULT_SETTINGS u estId =
     \<lparr>est_id = estId, ownerId = user_id u,
      est_name = (if user_name u = [] then ''Meu Restaurante (Offline)'' else user_name u),
      phone = ''000000000'', photoUrl = [], phrase = ''Modo de Recuperacao'',
      settings = DEFAULT_SETTINGS, tables = Map.empty, eventLog = [], isOpen = Some True\<rparr>"

definition loadEstablishmentData_hooks ::
    "Settings \<Rightarrow> User option \<Rightarrow> Cache \<Rightarrow> string \<Rightarrow> DBEstablishment Reply \<Rightarrow> DBCall list Reply
       \<Rightarrow> Cache \<Rightarrow> Cache \<times> Establishment option" where
  "loadEstablishmentData_hooks DEFAULT_SETTINGS currentUser establishments estId estReply callsReply prev =
     (case estReply of
        Rejected \<Rightarrow> (prev, None)
      | Data est \<Rightarrow>
          (case callsReply of
             Rejected \<Rightarrow> (prev, None)
           | _ \<Rightarrow>
             let tablesMap = buildTables DEFAULT_SETTINGS (db_settings est) callsReply;
                 fullEst = \<lparr>est_id = db_id est, ownerId = owner_id est, est_name = db_name est,
                            phone = db_phone est, photoUrl = photo_url est, phrase = db_phrase est,
                            settings = (case db_settings est of Some s \<Rightarrow> s | None \<Rightarrow> DEFAULT_SETTINGS),
                            tables = tablesMap, eventLog = [],
                            isOpen = Some (is_open est = Some True)\<rparr>
             in (prev(estId \<mapsto> fullEst), Some fullEst))
      | _ \<Rightarrow>
          (case establishments estId of
             Some cached \<Rightarrow> (prev, Some cached)
           | None \<Rightarrow>
               (case currentUser of
                  None \<Rightarrow> (prev, None)
                | Some u \<Rightarrow>
                    if role u = ESTABLISHMENT \<and> establishmentId u = Some estId
                    then (prev(estId \<mapsto> fallbackEst DEFAULT_SETTINGS u estId),
                          Some (fallbackEst DEFAULT_SETTINGS u estId))
                    else (prev, None))))"

text \<open>
  Consecutive refreshes of one establishment: each is a call of \<open>loadEstablishmentData\<close>
  with the \<open>establishments\<close> value its closure holds and the replies it gets.
\<close>

definition refreshes_hooks ::
    "Settings \<Rightarrow> User option \<Rightarrow> string \<Rightarrow> (Cache \<times> DBEstablishment Reply \<times> DBCall list Reply) list
       \<Rightarrow> Cache \<Rightarrow> Cache" where
  "refreshes_hooks DEFAULT_SETTINGS currentUser estId rounds prev =
     foldl (\<lambda>p (establishments, estReply, callsReply).
              fst (loadEstablishmentData_hooks DEFAULT_SETTINGS currentUser establishments estId
                     estReply callsReply p))
           prev rounds"

subsection \<open>loadEstablishmentData, src/unnamed/part_002 lines 138-190\<close>

text \<open>
  No timeout and no fallback here: \<open>if (!est) return\<close>.  A rejected promise leaves the
  function before the state is written.
\<close>

definition loadEstablishmentData_part002 ::
    "Settings \<Rightarrow> string \<Rightarrow> DBEstablishment Reply \<Rightarrow> DBCall list Reply
       \<Rightarrow> Cache \<Rightarrow> Cache \<times> Establishment option" where
  "loadEstablishmentData_part002 DEFAULT_SETTINGS estId estReply callsReply prev =
     (case estReply of
        Data est \<Rightarrow>
          (case callsReply of
             Rejected \<Rightarrow> (prev, None)
           | _ \<Rightarrow>
             let tablesMap = buildTables DEFAULT_SETTINGS (db_settings est) callsReply;
                 fullEst = \<lparr>est_id = db_id est, ownerId = owner_id est, est_name = db_name est,
                            phone = db_phone est, photoUrl = photo_url est, phrase = db_phrase est,
                            settings = (case db_settings est of Some s \<Rightarrow> s | None \<Rightarrow> DEFAULT_SETTINGS),
                            tables = tablesMap, eventLog = [], isOpen = None\<rparr>
             in (prev(estId \<mapsto> fullEst), Some fullEst))
      | _ \<Rightarrow> (prev, None))"

subsection \<open>The polling cycle, src/hooks/useMockData.ts lines 119-173\<close>

text \<open>
  The state of the hook.  \<open>cycle\<close> is created inside the effect of lines 119-161, whose
  dependencies are \<open>currentUser?.id\<close> and \<open>currentUser?.establishmentId\<close>; \<open>setInterval\<close> keeps
  calling that one closure.  Every state variable the closure reads (\<open>isUpdating\<close>,
  \<open>currentUser\<close>, \<open>customerProfiles\<close>, and \<open>establishments\<close> inside
  \<open>loadEstablishmentData\<close>) is the constant of the render that ran the effect: the \<open>view\<close>.
  The setters act on the current state.
\<close>

record HookState =
  currentUser :: "User option"
  establishments :: Cache
  customerProfiles :: "string \<rightharpoonup> CustomerProfile"
  isUpdating :: bool

text \<open>\<open>sendHeartbeat\<close>, lines 165-173: \<open>update({ is_open: true }).eq('id', estId)\<close>.\<close>

definition sendHeartbeat :: "Remote \<Rightarrow> string \<Rightarrow> Remote" where
  "sendHeartbeat remote estId =
     remote\<lparr>establishments_rows :=
              map (\<lambda>r. if db_id r = estId then r\<lparr>is_open := Some True\<rparr> else r)
                  (establishments_rows remote)\<rparr>"

text \<open>A refresh inside the cycle, against a reachable store.\<close>

definition refresh_hooks :: "Settings \<Rightarrow> HookState \<Rightarrow> string \<Rightarrow> Remote \<Rightarrow> HookState \<Rightarrow> HookState" where
  "refresh_hooks DEFAULT_SETTINGS view estId remote st =
     st\<lparr>establishments :=
          fst (loadEstablishmentData_hooks DEFAULT_SETTINGS (currentUser view) (establishments view)
                 estId (selectEstablishment remote estId) (selectCalls_hooks remote estId)
                 (establishments st))\<rparr>"

text \<open>
  Lines 123-124, the guard and \<open>setIsUpdating(true)\<close>: \<open>None\<close> when the tick returns at
  the guard.  Line 154, the \<open>finally\<close>.
\<close>

definition cycle_enter :: "HookState \<Rightarrow> HookState \<Rightarrow> HookState option" where
  "cycle_enter view st = (if isUpdating view then None else Some (st\<lparr>isUpdating := True\<rparr>))"

definition cycle_exit :: "HookState \<Rightarrow> HookState" where
  "cycle_exit st = st\<lparr>isUpdating := False\<rparr>"

text \<open>
  Lines 126-150, the body of the \<open>try\<close>, for the user \<open>u\<close> of the view.  In
  \<open>Promise.all\<close> the heartbeat's update is issued before the refresh's select.
\<close>

definition cycle_body :: "Settings \<Rightarrow> HookState \<Rightarrow> User \<Rightarrow> HookState \<times> Remote \<Rightarrow> HookState \<times> Remote" where
  "cycle_body DEFAULT_SETTINGS view u sr =
     (let st = fst sr; remote = snd sr in
      if role u = ESTABLISHMENT then
        (case establishmentId u of
           Some estId \<Rightarrow>
             (let remote' = sendHeartbeat remote estId
              in (refresh_hooks DEFAULT_SETTINGS view estId remote' st, remote'))
         | None \<Rightarrow>
             (case selectEstablishmentByOwner remote (user_id u) of
                Data est \<Rightarrow>
                  (let st' = st\<lparr>currentUser :=
                                  (case currentUser st of
                                     Some prev \<Rightarrow> Some (prev\<lparr>establishmentId := Some (db_id est)\<rparr>)
                                   | None \<Rightarrow> None)\<rparr>
                   in (refresh_hooks DEFAULT_SETTINGS view (db_id est) remote st', remote))
              | _ \<Rightarrow> (st, remote)))
      else if role u = CUSTOMER then
        (case customerProfiles view (user_id u) of
           Some profile \<Rightarrow>
             (fold (\<lambda>estId s. refresh_hooks DEFAULT_SETTINGS view estId remote s)
                   (favoritedEstablishmentIds profile) st, remote)
         | None \<Rightarrow> (st, remote))
      else (st, remote))"

definition cycle :: "Settings \<Rightarrow> HookState \<Rightarrow> HookState \<times> Remote \<Rightarrow> HookState \<times> Remote" where
  "cycle DEFAULT_SETTINGS view sr =
     (case currentUser view of
        None \<Rightarrow> sr
      | Some u \<Rightarrow>
          (case cycle_enter view (fst sr) of
             None \<Rightarrow> sr
           | Some st \<Rightarrow>
               (let sr' = cycle_body DEFAULT_SETTINGS view u (st, snd sr)
                in (cycle_exit (fst sr'), snd sr'))))"

text \<open>
  The timer against the running cycles.  JavaScript runs one callback at a time, so a tick
  of the timer runs the guard and \<open>setIsUpdating(true)\<close> at once (\<open>TimerFires\<close>), the cycle
  then waits for its requests, and runs its \<open>finally\<close> when they settle
  (\<open>CycleSettles\<close>).  \<open>EffectReruns\<close> is the effect set up again after a change of its
  dependencies: the new closure holds the state of that render.  \<open>inFlight\<close> counts the
  cycles that passed the guard and have not reached the \<open>finally\<close>.
\<close>

datatype Event = TimerFires | CycleSettles | EffectReruns

record Poller =
  view :: HookState
  hook :: HookState
  inFlight :: nat

fun pollerStep :: "Poller \<Rightarrow> Event \<Rightarrow> Poller" where
  "pollerStep p TimerFires =
     (case cycle_enter (view p) (hook p) of
        None \<Rightarrow> p
      | Some st \<Rightarrow> p\<lparr>hook := st, inFlight := inFlight p + 1\<rparr>)"
| "pollerStep p CycleSettles =
     (if inFlight p = 0 then p
      else p\<lparr>hook := cycle_exit (hook p), inFlight := inFlight p - 1\<rparr>)"
| "pollerStep p EffectReruns = p\<lparr>view := hook p\<rparr>"

definition pollerRun :: "Poller \<Rightarrow> Event list \<Rightarrow> Poller" where
  "pollerRun p evs = foldl pollerStep p evs"

section \<open>CallLifecycleController\<close>

text \<open>
  \<open>attendOldestCallByType\<close> and \<open>cancelOldestCallByType\<close> are the same two queries in
  both hooks (lines 387-402 of \<open>src/hooks/useMockData.ts\<close>, 368-401 of part_002): a select
  of the active calls of one type on one table, ordered by \<open>created_at_ts\<close> ascending,
  limit 1; then an update of the status of the rows with that id.  The order of rows
  with equal timestamps is the store's; a stable sort is taken here.  The refresh of
  the cache that follows writes nothing to the store.
\<close>

definition selectOldestActive :: "DBCall list \<Rightarrow> string \<Rightarrow> string \<Rightarrow> CallType \<Rightarrow> DBCall list" where
  "selectOldestActive rows estId tableNum ty =
     take 1 (sort_key created_at_ts
               (filter (\<lambda>c. establishment_id c = estId \<and> table_number c = tableNum
                             \<and> dbc_type c = ty \<and> (dbc_status c = SENT \<or> dbc_status c = VIEWED))
                       rows))"

definition updateStatusById :: "DBCall list \<Rightarrow> string \<Rightarrow> CallStatus \<Rightarrow> DBCall list" where
  "updateStatusById rows i st = map (\<lambda>c. if dbc_id c = i then c\<lparr>dbc_status := st\<rparr> else c) rows"

definition attendOldestCallByType :: "DBCall list \<Rightarrow> string \<Rightarrow> string \<Rightarrow> CallType \<Rightarrow> DBCall list" where
  "attendOldestCallByType rows estId tableNum ty =
     (case selectOldestActive rows estId tableNum ty of
        [] \<Rightarrow> rows
      | d # ds \<Rightarrow> updateStatusById rows (dbc_id d) ATTENDED)"

definition cancelOldestCallByType :: "DBCall list \<Rightarrow> string \<Rightarrow> string \<Rightarrow> CallType \<Rightarrow> DBCall list" where
  "cancelOldestCallByType rows estId tableNum ty =
     (case selectOldestActive rows estId tableNum ty of
        [] \<Rightarrow> rows
      | d # ds \<Rightarrow> updateStatusById rows (dbc_id d) CANCELED)"

text \<open>
  An active call of one type on one table of one establishment, as a row of the store.
\<close>

definition activeOfType :: "string \<Rightarrow> string \<Rightarrow> CallType \<Rightarrow> DBCall \<Rightarrow> bool" where
  "activeOfType estId tableNum ty c =
     (establishment_id c = estId \<and> table_number c = tableNum \<and> dbc_type c = ty
      \<and> (dbc_status c = SENT \<or> dbc_status c = VIEWED))"

text \<open>
  \<open>closeEstablishmentWorkday\<close>, lines 376-381 of \<open>src/hooks/useMockData.ts\<close>: the two updates
  of the store (the refresh that follows writes nothing to it).
\<close>

definition closeEstablishmentWorkday :: "Remote \<Rightarrow> string \<Rightarrow> Remote" where
  "closeEstablishmentWorkday remote i =
     remote\<lparr>establishments_rows :=
              map (\<lambda>r. if db_id r = i then r\<lparr>is_open := Some False\<rparr> else r)
                  (establishments_rows remote),
            calls_rows :=
              map (\<lambda>c. if establishment_id c = i \<and> (dbc_status c = SENT \<or> dbc_status c = VIEWED)
                        then c\<lparr>dbc_status := CANCELED\<rparr> else c)
                  (calls_rows remote)\<rparr>"

section \<open>FavoritesGuard\<close>

text \<open>
  Modelled from the spec: the schema of the store is not among the sources; by section 6
  of the specification \<open>customer_favorites\<close> has a unique (user_id, establishment_id)
  pair.  A reachable store refuses an insert of a pair that is there with the code 23505
  (unique violation, the code part_002 tests for) and takes any other insert.
\<close>









section \<open>Concrete inputs\<close>

text \<open>
  The settings of the scenarios of the specification (with ten tables), and tables of
  WAITER calls created at the instant 1700000000000 (epoch milliseconds) or later.
\<close>

definition scenarioSettings :: Settings where
  "scenarioSettings =
     \<lparr>totalTables = 10, timeGreen = 30, timeYellow = 90, qtyGreen = 2, qtyYellow = 4\<rparr>"

definition waiterCall :: "string \<Rightarrow> CallStatus \<Rightarrow> int \<Rightarrow> Call" where
  "waiterCall i st t = \<lparr>call_id = i, call_type = ''WAITER'', status = st, createdAt = t\<rparr>"

text \<open>Three active WAITER calls created at the same instant.\<close>

definition scenarioTable :: Table where
  "scenarioTable =
     \<lparr>number = ''1'',
      calls = [waiterCall ''c1'' SENT 1700000000000, waiterCall ''c2'' VIEWED 1700000000000,
               waiterCall ''c3'' SENT 1700000000000]\<rparr>"

text \<open>One active WAITER call.\<close>

definition singleCallTable :: Table where
  "singleCallTable = \<lparr>number = ''1'', calls = [waiterCall ''c1'' SENT 1700000000000]\<rparr>"

text \<open>Two active WAITER calls, the younger one first in the array.\<close>

definition unorderedTable :: Table where
  "unorderedTable =
     \<lparr>number = ''1'',
      calls = [waiterCall ''c2'' SENT 1700000090000, waiterCall ''c1'' VIEWED 1700000000000]\<rparr>"

text \<open>Rows of the calls table of the establishment e1.\<close>

definition dbCall :: "string \<Rightarrow> string \<Rightarrow> CallType \<Rightarrow> CallStatus \<Rightarrow> int \<Rightarrow> DBCall" where
  "dbCall i tableNum ty st t =
     \<lparr>dbc_id = i, establishment_id = ''e1'', table_number = tableNum, dbc_type = ty,
      dbc_status = st, created_at_ts = t\<rparr>"

definition demoCalls :: "DBCall list" where
  "demoCalls =
     [dbCall ''k1'' ''1'' ''WAITER'' SENT 1700000090000,
      dbCall ''k2'' ''1'' ''WAITER'' VIEWED 1700000000000,
      dbCall ''k3'' ''1'' ''BILL'' SENT 1600000000000,
      dbCall ''k4'' ''2'' ''WAITER'' SENT 1600000000000,
      dbCall ''k5'' ''1'' ''WAITER'' ATTENDED 1500000000000]"



text \<open>
  The owner of the establishment e1, an aggregate of e1 as a successful refresh left it,
  and a cache that holds it.
\<close>

definition ownerUser :: User where
  "ownerUser = \<lparr>user_id = ''u7'', user_name = ''Cantina'', role = ESTABLISHMENT,
                establishmentId = Some ''e1''\<rparr>"

definition cachedEst :: Establishment where
  "cachedEst =
     \<lparr>est_id = ''e1'', ownerId = ''u7'', est_name = ''Cantina'', phone = ''5511999990000'',
      photoUrl = [], phrase = ''Bem-vindo'', settings = scenarioSettings,
      tables = [''1'' \<mapsto> scenarioTable], eventLog = [], isOpen = Some True\<rparr>"

definition warmCache :: Cache where
  "warmCache = [''e1'' \<mapsto> cachedEst]"

text \<open>
  The store with the establishment e1 (two tables configured) and one call, on table 7,
  that has been attended; and the same store with the rows \<open>demoCalls\<close>.
\<close>

definition e1Row :: DBEstablishment where
  "e1Row = \<lparr>db_id = ''e1'', owner_id = ''u7'', db_name = ''Cantina'', db_phone = ''5511999990000'',
            photo_url = [], db_phrase = ''Bem-vindo'', is_open = Some True,
            db_settings = Some (scenarioSettings\<lparr>totalTables := 2\<rparr>)\<rparr>"

definition servedRemote :: Remote where
  "servedRemote =
     \<lparr>establishments_rows = [e1Row],
      calls_rows = [dbCall ''k9'' ''7'' ''WAITER'' ATTENDED 1700000000000],
      customer_favorites = []\<rparr>"

definition demoRemote :: Remote where
  "demoRemote = \<lparr>establishments_rows = [e1Row], calls_rows = demoCalls, customer_favorites = []\<rparr>"

text \<open>
  The state of the hook for the logged-in owner of e1 with nothing loaded and no cycle
  running; further down, the poller whose effect was set up in that render.
\<close>

definition ownerSession :: HookState where
  "ownerSession = \<lparr>currentUser = Some ownerUser, establishments = Map.empty,
                   customerProfiles = Map.empty, isUpdating = False\<rparr>"

text \<open>
  The state of the hook once the first refresh has stored the aggregate of e1, and a
  store that has no row for e1.
\<close>

definition warmSession :: HookState where
  "warmSession = ownerSession\<lparr>establishments := warmCache\<rparr>"

definition emptyRemote :: Remote where
  "emptyRemote = \<lparr>establishments_rows = [], calls_rows = [], customer_favorites = []\<rparr>"

definition idlePoller :: Poller where
  "idlePoller = \<lparr>view = ownerSession, hook = ownerSession, inFlight = 0\<rparr>"

section \<open>Properties of the EscalationCalculator\<close>

lemma isActive_not_terminal: "(status c \<noteq> ATTENDED \<and> status c \<noteq> CANCELED) = isActive c"
  by (cases "status c") (simp_all add: isActive_def)

lemma fold_min_createdAt:
  "createdAt (foldl (\<lambda>a b. if createdAt a < createdAt b then a else b) x xs)
     = fold min (map createdAt xs) (createdAt x)"
  by (induction xs arbitrary: x) (simp_all add: min_def)

lemma createdAt_oldest_hooks:
  "createdAt (foldl (\<lambda>a b. if createdAt a < createdAt b then a else b) x xs)
     = Min (createdAt ` set (x # xs))"
proof -
  have "Min (createdAt ` set (x # xs)) = Min (set (createdAt x # map createdAt xs))"
    by simp
  also have "\<dots> = fold min (map createdAt xs) (createdAt x)"
    by (rule Min.set_eq_fold)
  finally show ?thesis
    by (simp add: fold_min_createdAt)
qed

lemma fold_min_createdAt_part002:
  "createdAt (foldl (\<lambda>oldest current.
                      if createdAt current < createdAt oldest then current else oldest) x xs)
     = fold min (map createdAt xs) (createdAt x)"
  by (induction xs arbitrary: x) (simp_all add: min_def)

lemma createdAt_oldest_part002:
  "createdAt (foldl (\<lambda>oldest current.
                      if createdAt current < createdAt oldest then current else oldest) x xs)
     = Min (createdAt ` set (x # xs))"
proof -
  have "Min (createdAt ` set (x # xs)) = Min (set (createdAt x # map createdAt xs))"
    by simp
  also have "\<dots> = fold min (map createdAt xs) (createdAt x)"
    by (rule Min.set_eq_fold)
  finally show ?thesis
    by (simp add: fold_min_createdAt_part002)
qed

lemma callsByType_fold:
  "distinct (map fst acc) \<Longrightarrow>
   distinct (map fst (foldl (\<lambda>acc call.
              AList.update (call_type call)
                ((case map_of acc (call_type call) of None \<Rightarrow> 0 | Some n \<Rightarrow> n) + 1) acc) acc cs))
   \<and> map_of (foldl (\<lambda>acc call.
              AList.update (call_type call)
                ((case map_of acc (call_type call) of None \<Rightarrow> 0 | Some n \<Rightarrow> n) + 1) acc) acc cs) ty
     = (if countOfType ty cs = 0 then map_of acc ty
        else Some ((case map_of acc ty of None \<Rightarrow> 0 | Some n \<Rightarrow> n) + countOfType ty cs))"
proof (induction cs arbitrary: acc)
  case Nil
  then show ?case by (simp add: countOfType_def)
next
  case (Cons c cs)
  let ?acc' = "AList.update (call_type c)
                ((case map_of acc (call_type c) of None \<Rightarrow> 0 | Some n \<Rightarrow> n) + 1) acc"
  have d: "distinct (map fst ?acc')"
    using Cons.prems by (rule distinct_update)
  show ?case
    using Cons.IH [OF d]
    by (auto simp: countOfType_def update_conv' split: option.splits)
qed

lemma map_of_callsByType:
  "map_of (callsByType cs) ty = (if countOfType ty cs = 0 then None else Some (countOfType ty cs))"
  and distinct_callsByType: "distinct (map fst (callsByType cs))"
  using callsByType_fold [of "[]" cs ty] by (simp_all add: callsByType_def)

lemma countOfType_pos_iff: "0 < countOfType ty cs \<longleftrightarrow> ty \<in> call_type ` set cs"
  by (auto simp: countOfType_def filter_empty_conv)

lemma list_ex_counts:
  "list_ex P (map snd (callsByType cs)) \<longleftrightarrow> (\<exists>ty \<in> call_type ` set cs. P (countOfType ty cs))"
proof -
  have "list_ex P (map snd (callsByType cs)) \<longleftrightarrow> (\<exists>ty n. map_of (callsByType cs) ty = Some n \<and> P n)"
    using distinct_callsByType [of cs]
    by (force simp: list_ex_iff)
  also have "\<dots> \<longleftrightarrow> (\<exists>ty. 0 < countOfType ty cs \<and> P (countOfType ty cs))"
    by (auto simp: map_of_callsByType split: if_splits)
  finally show ?thesis
    by (auto simp: countOfType_pos_iff)
qed

lemma maxCount_gr_iff:
  "cs \<noteq> [] \<Longrightarrow> q < maxCount cs \<longleftrightarrow> (\<exists>ty \<in> call_type ` set cs. q < int (countOfType ty cs))"
  unfolding maxCount_def by (subst Max_gr_iff) auto

lemma maxCount_le_iff:
  "cs \<noteq> [] \<Longrightarrow> maxCount cs \<le> q \<longleftrightarrow> (\<forall>ty \<in> call_type ` set cs. int (countOfType ty cs) \<le> q)"
  unfolding maxCount_def by (subst Max_le_iff) auto

lemma getTableSemaphoreStatus_part002_eq:
  "getTableSemaphoreStatus_part002 now tbl s = tableStatus now tbl s"
proof (cases "activeCalls tbl")
  case Nil
  then show ?thesis
    by (simp add: getTableSemaphoreStatus_part002_def tableStatus_def activeCalls_def
        isActive_not_terminal)
next
  case (Cons first rest)
  have ne: "first # rest \<noteq> []" by simp
  have red: "list_ex (\<lambda>count. int count > qtyYellow s) (map snd (callsByType (first # rest)))
        \<longleftrightarrow> maxCount (first # rest) > qtyYellow s"
    unfolding list_ex_counts maxCount_gr_iff [OF ne] ..
  have yel: "\<not> maxCount (first # rest) > qtyYellow s \<Longrightarrow>
     list_ex (\<lambda>count. int count > qtyGreen s \<and> int count \<le> qtyYellow s)
        (map snd (callsByType (first # rest)))
        \<longleftrightarrow> (qtyGreen s < maxCount (first # rest) \<and> maxCount (first # rest) \<le> qtyYellow s)"
    unfolding list_ex_counts maxCount_gr_iff [OF ne] 
    using maxCount_le_iff [OF ne, of "qtyYellow s"] maxCount_gr_iff [OF ne, of "qtyYellow s"] by (auto simp: not_less)
  show ?thesis
    using Cons red yel
    by (simp add: getTableSemaphoreStatus_part002_def tableStatus_def activeCalls_def
        isActive_not_terminal Let_def elapsedOf_def createdAt_oldest_part002 del: set_simps list.set image_insert)
       
qed


lemma filter_active: "filter (\<lambda>c. status c = SENT \<or> status c = VIEWED) cs = filter isActive cs"
  by (induction cs) (simp_all add: isActive_def)

lemma getTableSemaphoreStatus_hooks_eq:
  "getTableSemaphoreStatus_hooks now tbl s = timeRule now (activeCalls tbl) s"
proof (cases "activeCalls tbl")
  case Nil
  then show ?thesis
    by (simp add: getTableSemaphoreStatus_hooks_def timeRule_def activeCalls_def filter_active)
next
  case (Cons first rest)
  then show ?thesis
    by (simp add: getTableSemaphoreStatus_hooks_def timeRule_def activeCalls_def filter_active
        Let_def elapsedOf_def createdAt_oldest_hooks del: set_simps list.set image_insert)
qed

lemma activeCalls_nonempty:
  assumes "\<forall>ty. countOfType ty cs \<le> countOfType ty cs'" and "cs \<noteq> []"
  shows "cs' \<noteq> []"
proof -
  obtain c where "c \<in> set cs" using assms(2) by (cases cs) auto
  then have "0 < countOfType (call_type c) cs" by (auto simp: countOfType_pos_iff)
  then have "0 < countOfType (call_type c) cs'" using assms(1) by (meson less_le_trans)
  then show ?thesis by (auto simp: countOfType_def)
qed

lemma maxCount_mono:
  assumes "\<forall>ty. countOfType ty cs \<le> countOfType ty cs'" and "cs \<noteq> []"
  shows "maxCount cs \<le> maxCount cs'"
proof -
  have ne': "cs' \<noteq> []" using assms by (rule activeCalls_nonempty)
  have "int (countOfType ty cs) \<le> maxCount cs'" if "ty \<in> call_type ` set cs" for ty
  proof -
    have "0 < countOfType ty cs" using that by (simp add: countOfType_pos_iff)
    then have "0 < countOfType ty cs'" using assms(1) by (meson less_le_trans)
    then have "ty \<in> call_type ` set cs'" by (simp add: countOfType_pos_iff)
    then have "int (countOfType ty cs') \<le> maxCount cs'"
      unfolding maxCount_def by (intro Max_ge) auto
    then show ?thesis using assms(1) [rule_format, of ty] by linarith
  qed
  then show ?thesis
    by (simp add: maxCount_le_iff [OF assms(2)])
qed

lemma tableStatus_mono:
  assumes "timeGreen s < timeYellow s" and "qtyGreen s < qtyYellow s"
    and counts: "\<forall>ty. countOfType ty (activeCalls t) \<le> countOfType ty (activeCalls t')"
    and elapsed: "activeCalls t \<noteq> [] \<Longrightarrow>
                    elapsedOf now (activeCalls t) \<le> elapsedOf now' (activeCalls t')"
  shows "urgency (tableStatus now t s) \<le> urgency (tableStatus now' t' s)"
proof (cases "activeCalls t = []")
  case True
  then show ?thesis by (simp add: tableStatus_def)
next
  case False
  have ne': "activeCalls t' \<noteq> []" using counts False by (rule activeCalls_nonempty)
  have e: "elapsedOf now (activeCalls t) \<le> elapsedOf now' (activeCalls t')"
    using elapsed False by simp
  have m: "maxCount (activeCalls t) \<le> maxCount (activeCalls t')"
    using counts False by (rule maxCount_mono)
  show ?thesis
    using False ne' e m assms(1,2)
    by (auto simp: tableStatus_def Let_def)
qed

lemma timeRule_mono:
  assumes "timeGreen s < timeYellow s" 
    and counts: "\<forall>ty. countOfType ty cs \<le> countOfType ty cs'"
    and elapsed: "cs \<noteq> [] \<Longrightarrow> elapsedOf now cs \<le> elapsedOf now' cs'"
  shows "urgency (timeRule now cs s) \<le> urgency (timeRule now' cs' s)"
proof (cases "cs = []")
  case True
  then show ?thesis by (simp add: timeRule_def)
next
  case False
  have ne': "cs' \<noteq> []" using counts False by (rule activeCalls_nonempty)
  have e: "elapsedOf now cs \<le> elapsedOf now' cs'"
    using elapsed False by simp
  show ?thesis
    using False ne' e assms(1)
    by (auto simp: timeRule_def)
qed


subsection \<open>Table status\<close>

text \<open>
  C1, as the code has it.  In part_002 \<open>getTableSemaphoreStatus\<close> is the algorithm of the
  specification: IDLE without active calls, else RED if \<open>elapsed > timeYellow\<close> or
  \<open>maxCount > qtyYellow\<close>, else YELLOW if \<open>timeGreen < elapsed \<le> timeYellow\<close> or
  \<open>qtyGreen < maxCount \<le> qtyYellow\<close>, else GREEN, with \<open>elapsed\<close> counted from the minimum
  \<open>createdAt\<close> of the active calls and \<open>maxCount\<close> the largest number of active calls of
  one type.  In \<open>src/hooks/useMockData.ts\<close> the function applies the time rule alone.
\<close>

theorem C1_tableStatus_by_variant:
  "getTableSemaphoreStatus_part002 now tbl s = tableStatus now tbl s
   \<and> getTableSemaphoreStatus_hooks now tbl s = timeRule now (activeCalls tbl) s"
  by (simp add: getTableSemaphoreStatus_part002_eq getTableSemaphoreStatus_hooks_eq)

text \<open>
  The scenario of the specification, three active WAITER calls created 10 seconds ago:
  YELLOW in part_002, GREEN in \<open>src/hooks/useMockData.ts\<close>.
\<close>

theorem C1_tableStatus_by_variant_witness:
  "getTableSemaphoreStatus_part002 1700000010000 scenarioTable scenarioSettings = YELLOW
   \<and> getTableSemaphoreStatus_hooks 1700000010000 scenarioTable scenarioSettings = GREEN"
proof -
  have "tableStatus 1700000010000 scenarioTable scenarioSettings = YELLOW"
    by (simp add: tableStatus_def activeCalls_def scenarioTable_def scenarioSettings_def
        waiterCall_def isActive_def elapsedOf_def maxCount_def countOfType_def)
  moreover have "timeRule 1700000010000 (activeCalls scenarioTable) scenarioSettings = GREEN"
    by (simp add: timeRule_def activeCalls_def scenarioTable_def scenarioSettings_def
        waiterCall_def isActive_def elapsedOf_def)
  ultimately show ?thesis
    using C1_tableStatus_by_variant [of 1700000010000 scenarioTable scenarioSettings]
    by simp
qed

text \<open>
  C1 as stated fails on \<open>src/hooks/useMockData.ts\<close>: in the scenario its
  \<open>getTableSemaphoreStatus\<close> is GREEN, not the YELLOW of the algorithm.
\<close>

theorem C1_hooks_counterexample:
  "getTableSemaphoreStatus_hooks 1700000010000 scenarioTable scenarioSettings = GREEN
   \<and> tableStatus 1700000010000 scenarioTable scenarioSettings = YELLOW"
proof -
  have "getTableSemaphoreStatus_hooks 1700000010000 scenarioTable scenarioSettings = GREEN"
    by (simp add: getTableSemaphoreStatus_hooks_def scenarioTable_def scenarioSettings_def
        waiterCall_def)
  moreover have "tableStatus 1700000010000 scenarioTable scenarioSettings = YELLOW"
    by (simp add: tableStatus_def activeCalls_def scenarioTable_def scenarioSettings_def
        waiterCall_def isActive_def elapsedOf_def maxCount_def countOfType_def)
  ultimately show ?thesis by simp
qed

text \<open>
  C7.  For settings with \<open>timeGreen < timeYellow\<close> and \<open>qtyGreen < qtyYellow\<close>, take two
  situations \<open>(now, t)\<close> and \<open>(now', t')\<close> such that every type has at least as many
  active calls on \<open>t'\<close> as on \<open>t\<close> and the time elapsed since the oldest active call is
  at least as long in the second situation.  Then the table status of the second is at
  least as urgent as that of the first, in the order IDLE < GREEN < YELLOW < RED, in
  both variants of \<open>getTableSemaphoreStatus\<close>.
\<close>

theorem C7_tableStatus_monotone:
  assumes "timeGreen s < timeYellow s" and "qtyGreen s < qtyYellow s"
    and "\<forall>ty. countOfType ty (activeCalls t) \<le> countOfType ty (activeCalls t')"
    and "activeCalls t \<noteq> [] \<Longrightarrow>
           elapsedOf now (activeCalls t) \<le> elapsedOf now' (activeCalls t')"
  shows "urgency (getTableSemaphoreStatus_part002 now t s)
           \<le> urgency (getTableSemaphoreStatus_part002 now' t' s)
         \<and> urgency (getTableSemaphoreStatus_hooks now t s)
           \<le> urgency (getTableSemaphoreStatus_hooks now' t' s)"
  using tableStatus_mono [OF assms] timeRule_mono [OF assms(1,3,4)]
  by (simp add: getTableSemaphoreStatus_part002_eq getTableSemaphoreStatus_hooks_eq)

text \<open>
  An instance: one call 10 seconds old against three calls (one type) 100 seconds old.
\<close>

theorem C7_tableStatus_monotone_witness:
  "timeGreen scenarioSettings < timeYellow scenarioSettings
   \<and> qtyGreen scenarioSettings < qtyYellow scenarioSettings
   \<and> (\<forall>ty. countOfType ty (activeCalls singleCallTable) \<le> countOfType ty (activeCalls scenarioTable))
   \<and> activeCalls singleCallTable \<noteq> []
   \<and> elapsedOf 1700000010000 (activeCalls singleCallTable)
        \<le> elapsedOf 1700000100000 (activeCalls scenarioTable)
   \<and> urgency (getTableSemaphoreStatus_part002 1700000010000 singleCallTable scenarioSettings)
        \<le> urgency (getTableSemaphoreStatus_part002 1700000100000 scenarioTable scenarioSettings)
   \<and> urgency (getTableSemaphoreStatus_hooks 1700000010000 singleCallTable scenarioSettings)
        \<le> urgency (getTableSemaphoreStatus_hooks 1700000100000 scenarioTable scenarioSettings)"
proof -
  have h1: "timeGreen scenarioSettings < timeYellow scenarioSettings"
    and h2: "qtyGreen scenarioSettings < qtyYellow scenarioSettings"
    by (simp_all add: scenarioSettings_def)
  have h3: "\<forall>ty. countOfType ty (activeCalls singleCallTable)
                  \<le> countOfType ty (activeCalls scenarioTable)"
    by (simp add: countOfType_def activeCalls_def singleCallTable_def scenarioTable_def
        waiterCall_def isActive_def)
  have ne: "activeCalls singleCallTable \<noteq> []"
    by (simp add: activeCalls_def singleCallTable_def waiterCall_def isActive_def)
  have h4: "elapsedOf 1700000010000 (activeCalls singleCallTable)
              \<le> elapsedOf 1700000100000 (activeCalls scenarioTable)"
    by (simp add: elapsedOf_def activeCalls_def singleCallTable_def scenarioTable_def
        waiterCall_def isActive_def)
  show ?thesis
    using h1 h2 h3 ne h4 C7_tableStatus_monotone [OF h1 h2 h3 h4]
    by simp
qed

subsection \<open>Call-type status\<close>

text \<open>
  In part_002 \<open>getCallTypeSemaphoreStatus\<close> is IDLE exactly when the table has no active
  call of the type, and is otherwise at least as urgent as the time rule relative to the
  oldest (minimum \<open>createdAt\<close>) active call of the type.
\<close>

lemma getCallTypeSemaphoreStatus_part002_time_rule:
  "urgency (timeRule now (filter (\<lambda>c. call_type c = ty) (activeCalls tbl)) s)
     \<le> urgency (getCallTypeSemaphoreStatus_part002 now tbl ty s)
   \<and> (getCallTypeSemaphoreStatus_part002 now tbl ty s = IDLE
        \<longleftrightarrow> filter (\<lambda>c. call_type c = ty) (activeCalls tbl) = [])"
proof -
  have eq: "filter (\<lambda>c. call_type c = ty \<and> (status c = SENT \<or> status c = VIEWED)) (calls tbl)
              = filter (\<lambda>c. call_type c = ty) (activeCalls tbl)"
    by (auto simp: activeCalls_def isActive_def intro!: filter_cong)
  show ?thesis
  proof (cases "filter (\<lambda>c. call_type c = ty) (activeCalls tbl)")
    case Nil
    then show ?thesis
      by (simp add: getCallTypeSemaphoreStatus_part002_def eq timeRule_def)
  next
    case (Cons first rest)
    have m: "Min (createdAt ` set (first # first # rest)) = Min (createdAt ` set (first # rest))"
      by simp
    show ?thesis
      using Cons
      by (simp add: getCallTypeSemaphoreStatus_part002_def eq timeRule_def Let_def elapsedOf_def
          createdAt_oldest_part002 m del: set_simps list.set image_insert)
  qed
qed

text \<open>
  C2 fails on \<open>src/hooks/useMockData.ts\<close>.  With the thresholds 30 and 90 seconds: one
  active WAITER call created 60 seconds ago gives GREEN where the time rule says YELLOW;
  and of two active WAITER calls, the first of the array 10 seconds old and the second
  100 seconds old, the function looks at the first and gives GREEN where the time rule,
  relative to the oldest, says RED.
\<close>

theorem C2_hooks_callType_divergence:
  "getCallTypeSemaphoreStatus_hooks 1700000060000 singleCallTable ''WAITER'' scenarioSettings = GREEN
   \<and> timeRule 1700000060000 (filter (\<lambda>c. call_type c = ''WAITER'') (activeCalls singleCallTable))
        scenarioSettings = YELLOW
   \<and> getCallTypeSemaphoreStatus_hooks 1700000100000 unorderedTable ''WAITER'' scenarioSettings = GREEN
   \<and> timeRule 1700000100000 (filter (\<lambda>c. call_type c = ''WAITER'') (activeCalls unorderedTable))
        scenarioSettings = RED"
  by (simp add: getCallTypeSemaphoreStatus_hooks_def timeRule_def activeCalls_def isActive_def
      elapsedOf_def singleCallTable_def unorderedTable_def scenarioSettings_def waiterCall_def)

section \<open>Properties of the CallLifecycleController\<close>

lemma updateStatusById_nth:
  assumes "distinct (map dbc_id rs)" and "i < length rs"
  shows "updateStatusById rs (dbc_id (rs ! i)) st = rs[i := (rs ! i)\<lparr>dbc_status := st\<rparr>]"
proof (rule nth_equalityI)
  show "length (updateStatusById rs (dbc_id (rs ! i)) st) = length (rs[i := (rs ! i)\<lparr>dbc_status := st\<rparr>])"
    by (simp add: updateStatusById_def)
next
  fix j assume "j < length (updateStatusById rs (dbc_id (rs ! i)) st)"
  then have j: "j < length rs" by (simp add: updateStatusById_def)
  have "dbc_id (rs ! j) = dbc_id (rs ! i) \<longleftrightarrow> j = i"
    using assms j nth_eq_iff_index_eq [of "map dbc_id rs" j i] by simp
  then show "updateStatusById rs (dbc_id (rs ! i)) st ! j = rs[i := (rs ! i)\<lparr>dbc_status := st\<rparr>] ! j"
    using j assms(2) by (auto simp: updateStatusById_def)
qed

lemma selectOldestActive_Nil:
  "filter (activeOfType e tb ty) rs = [] \<Longrightarrow> selectOldestActive rs e tb ty = []"
  by (simp add: selectOldestActive_def activeOfType_def [abs_def])

lemma selectOldestActive_Cons:
  assumes "filter (activeOfType e tb ty) rs \<noteq> []"
  shows "\<exists>d. selectOldestActive rs e tb ty = [d] \<and> d \<in> set rs \<and> activeOfType e tb ty d
             \<and> (\<forall>c\<in>set rs. activeOfType e tb ty c \<longrightarrow> created_at_ts d \<le> created_at_ts c)"
proof -
  let ?M = "filter (activeOfType e tb ty) rs"
  obtain d ds where s: "sort_key created_at_ts ?M = d # ds"
    using assms by (cases "sort_key created_at_ts ?M") (auto dest: arg_cong [where f = length])
  have "sorted (map created_at_ts (d # ds))"
    using sorted_sort_key [of created_at_ts ?M] s by simp
  then have le: "\<forall>c\<in>set (d # ds). created_at_ts d \<le> created_at_ts c"
    by auto
  have set: "set (d # ds) = set ?M"
    using set_sort [of created_at_ts ?M] s by simp
  have "selectOldestActive rs e tb ty = [d]"
    using s by (simp add: selectOldestActive_def activeOfType_def [abs_def])
  moreover have "d \<in> set ?M" using set by auto
  ultimately show ?thesis
    using le set by auto
qed

text \<open>
  C6.  The ids of the calls are distinct (\<open>id\<close> is the key of the table).  If the table of
  the establishment has no active call of the type, \<open>attendOldestCallByType\<close> and
  \<open>cancelOldestCallByType\<close> leave every row as it is.  Otherwise there is one row \<open>i\<close>,
  an active call of that type on that table whose \<open>created_at_ts\<close> is minimal among them,
  and the store after the operation is the store before it with the status of row \<open>i\<close>
  set to ATTENDED (resp. CANCELED): no other row changes.
\<close>

theorem C6_oldest_only:
  assumes "distinct (map dbc_id rs)"
  shows "if filter (activeOfType e tb ty) rs = []
         then attendOldestCallByType rs e tb ty = rs \<and> cancelOldestCallByType rs e tb ty = rs
         else (\<exists>i<length rs.
                 activeOfType e tb ty (rs ! i)
                 \<and> (\<forall>c\<in>set rs. activeOfType e tb ty c \<longrightarrow> created_at_ts (rs ! i) \<le> created_at_ts c)
                 \<and> attendOldestCallByType rs e tb ty = rs[i := (rs ! i)\<lparr>dbc_status := ATTENDED\<rparr>]
                 \<and> cancelOldestCallByType rs e tb ty = rs[i := (rs ! i)\<lparr>dbc_status := CANCELED\<rparr>])"
proof (cases "filter (activeOfType e tb ty) rs = []")
  case True
  then show ?thesis
    by (simp add: attendOldestCallByType_def cancelOldestCallByType_def selectOldestActive_Nil)
next
  case False
  then obtain d where d: "selectOldestActive rs e tb ty = [d]" "d \<in> set rs" "activeOfType e tb ty d"
      "\<forall>c\<in>set rs. activeOfType e tb ty c \<longrightarrow> created_at_ts d \<le> created_at_ts c"
    using selectOldestActive_Cons by blast
  then obtain i where i: "i < length rs" "rs ! i = d"
    by (auto simp: in_set_conv_nth)
  have "attendOldestCallByType rs e tb ty = rs[i := (rs ! i)\<lparr>dbc_status := ATTENDED\<rparr>]"
    and "cancelOldestCallByType rs e tb ty = rs[i := (rs ! i)\<lparr>dbc_status := CANCELED\<rparr>]"
    using d(1) i updateStatusById_nth [OF assms i(1)]
    by (simp_all add: attendOldestCallByType_def cancelOldestCallByType_def)
  then show ?thesis
    using False i d by auto
qed

text \<open>
  An instance: of two active WAITER calls on table 1, the second row is the older one.
\<close>

theorem C6_oldest_only_witness:
  "distinct (map dbc_id demoCalls)
   \<and> filter (activeOfType ''e1'' ''1'' ''WAITER'') demoCalls \<noteq> []
   \<and> attendOldestCallByType demoCalls ''e1'' ''1'' ''WAITER''
       = demoCalls[1 := (demoCalls ! 1)\<lparr>dbc_status := ATTENDED\<rparr>]
   \<and> (\<exists>i<length demoCalls.
         activeOfType ''e1'' ''1'' ''WAITER'' (demoCalls ! i)
         \<and> (\<forall>c\<in>set demoCalls. activeOfType ''e1'' ''1'' ''WAITER'' c
                \<longrightarrow> created_at_ts (demoCalls ! i) \<le> created_at_ts c)
         \<and> attendOldestCallByType demoCalls ''e1'' ''1'' ''WAITER''
             = demoCalls[i := (demoCalls ! i)\<lparr>dbc_status := ATTENDED\<rparr>]
         \<and> cancelOldestCallByType demoCalls ''e1'' ''1'' ''WAITER''
             = demoCalls[i := (demoCalls ! i)\<lparr>dbc_status := CANCELED\<rparr>])"
proof -
  have h: "distinct (map dbc_id demoCalls)"
    by (simp add: demoCalls_def dbCall_def)
  have ne: "filter (activeOfType ''e1'' ''1'' ''WAITER'') demoCalls \<noteq> []"
    by (simp add: demoCalls_def dbCall_def activeOfType_def)
  have ev: "attendOldestCallByType demoCalls ''e1'' ''1'' ''WAITER''
       = demoCalls[1 := (demoCalls ! 1)\<lparr>dbc_status := ATTENDED\<rparr>]"
    by (simp add: attendOldestCallByType_def selectOldestActive_def updateStatusById_def
        demoCalls_def dbCall_def)
  show ?thesis
    using h ne ev C6_oldest_only [OF h, of "''e1''" "''1''" "''WAITER''"]
    by simp
qed


section \<open>Properties of the FavoritesGuard\<close>




section \<open>Properties of the SyncEngine\<close>

subsection \<open>Failed fetches\<close>

lemma loadEstablishmentData_hooks_stale:
  assumes "ests estId = Some cached" and "fetchFailed estReply"
  shows "loadEstablishmentData_hooks D cu ests estId estReply callsReply prev
           = (prev, if estReply = Rejected then None else Some cached)"
  using assms
  by (cases estReply) (simp_all add: loadEstablishmentData_hooks_def fetchFailed_def)

text \<open>
  Where the \<open>establishments\<close> value of the closure holds an aggregate for the id, failed
  fetches of the establishment (no row, an error, or the rejection of the 8 second
  timeout) write nothing, however many follow one another.
\<close>

lemma serve_stale_on_snapshot:
  assumes "\<forall>(ests, estReply, callsReply) \<in> set rounds.
             estId \<in> dom ests \<and> fetchFailed estReply"
  shows "refreshes_hooks D cu estId rounds prev = prev"
  using assms
proof (induction rounds arbitrary: prev)
  case Nil
  show ?case by (simp add: refreshes_hooks_def)
next
  case (Cons r rounds)
  obtain ests estReply callsReply where r: "r = (ests, estReply, callsReply)"
    by (cases r) auto
  have "estId \<in> dom ests" and f: "fetchFailed estReply"
    using Cons.prems r by auto
  then obtain cached where "ests estId = Some cached" by auto
  then have "fst (loadEstablishmentData_hooks D cu ests estId estReply callsReply prev) = prev"
    using f by (simp add: loadEstablishmentData_hooks_stale)
  then show ?case
    using Cons.IH [of prev] Cons.prems
    by (simp add: refreshes_hooks_def r)
qed

text \<open>
  C4 fails on the code.  The test \<open>establishments.has(estId)\<close> reads the value of the
  render that created the closure, the write \<open>setEstablishments(prev => ...)\<close> acts on
  the cache as it is.  The polling closure of the owner of e1 was set up before the
  first refresh, so its \<open>establishments\<close> is empty while the cache holds the aggregate
  of e1.  A fetch that finds no row then takes the placeholder branch: the cached
  aggregate of e1 is replaced by the placeholder, in \<open>loadEstablishmentData\<close> called
  alone and in a polling cycle.
\<close>

theorem C4_stale_snapshot_overwrites:
  "warmCache ''e1'' = Some cachedEst
   \<and> establishments ownerSession ''e1'' = None
   \<and> fst (loadEstablishmentData_hooks scenarioSettings (Some ownerUser)
             (establishments ownerSession) ''e1'' NoData NoData warmCache) ''e1''
       = Some (fallbackEst scenarioSettings ownerUser ''e1'')
   \<and> establishments (fst (cycle scenarioSettings ownerSession (warmSession, emptyRemote))) ''e1''
       = Some (fallbackEst scenarioSettings ownerUser ''e1'')
   \<and> phrase (fallbackEst scenarioSettings ownerUser ''e1'') \<noteq> phrase cachedEst
   \<and> dom (tables (fallbackEst scenarioSettings ownerUser ''e1'')) \<noteq> dom (tables cachedEst)"
proof -
  have "establishments (fst (cycle scenarioSettings ownerSession (warmSession, emptyRemote))) ''e1''
       = Some (fallbackEst scenarioSettings ownerUser ''e1'')"
    by (simp add: cycle_def cycle_enter_def cycle_exit_def cycle_body_def refresh_hooks_def
        sendHeartbeat_def selectEstablishment_def selectCalls_hooks_def
        loadEstablishmentData_hooks_def ownerSession_def warmSession_def emptyRemote_def
        ownerUser_def Let_def)
  moreover have "fst (loadEstablishmentData_hooks scenarioSettings (Some ownerUser)
             (establishments ownerSession) ''e1'' NoData NoData warmCache) ''e1''
       = Some (fallbackEst scenarioSettings ownerUser ''e1'')"
    by (simp add: loadEstablishmentData_hooks_def ownerSession_def ownerUser_def)
  ultimately show ?thesis
    by (simp add: warmCache_def ownerSession_def fallbackEst_def cachedEst_def)
qed

text \<open>
  C5, as the code has it.  The \<open>establishments\<close> value of the closure holds nothing for the
  id, the fetch of the establishment came back with no row or with an error, and the
  current user has the role ESTABLISHMENT and this \<open>establishmentId\<close>.  Then
  \<open>loadEstablishmentData\<close> stores and returns the placeholder: the id asked for, the
  user's id as owner, the user's name (a fixed name when it is empty), \<open>isOpen\<close> true,
  the default settings, and a table map with no entry at all.  The fixed phrase and
  phone are all that tells it from a loaded aggregate.
\<close>

theorem C5_owner_placeholder:
  assumes "ests estId = None" and "role u = ESTABLISHMENT" and "establishmentId u = Some estId"
    and "estReply = NoData \<or> estReply = Failed code"
  shows "loadEstablishmentData_hooks D (Some u) ests estId estReply callsReply prev
           = (prev(estId \<mapsto> fallbackEst D u estId), Some (fallbackEst D u estId))
         \<and> est_id (fallbackEst D u estId) = estId
         \<and> ownerId (fallbackEst D u estId) = user_id u
         \<and> est_name (fallbackEst D u estId)
             = (if user_name u = [] then ''Meu Restaurante (Offline)'' else user_name u)
         \<and> isOpen (fallbackEst D u estId) = Some True
         \<and> settings (fallbackEst D u estId) = D
         \<and> dom (tables (fallbackEst D u estId)) = {}
         \<and> phrase (fallbackEst D u estId) = ''Modo de Recuperacao''
         \<and> phone (fallbackEst D u estId) = ''000000000''"
  using assms
  by (auto simp: loadEstablishmentData_hooks_def fallbackEst_def)

text \<open>
  An instance: the owner of e1, an empty cache, the error 406.
\<close>

theorem C5_owner_placeholder_witness:
  "Map.empty ''e1'' = (None :: Establishment option)
   \<and> role ownerUser = ESTABLISHMENT \<and> establishmentId ownerUser = Some ''e1''
   \<and> loadEstablishmentData_hooks scenarioSettings (Some ownerUser) Map.empty ''e1''
        (Failed ''406'') NoData Map.empty
       = ([''e1'' \<mapsto> fallbackEst scenarioSettings ownerUser ''e1''],
          Some (fallbackEst scenarioSettings ownerUser ''e1''))
   \<and> est_name (fallbackEst scenarioSettings ownerUser ''e1'') = ''Cantina''
   \<and> isOpen (fallbackEst scenarioSettings ownerUser ''e1'') = Some True
   \<and> dom (tables (fallbackEst scenarioSettings ownerUser ''e1'')) = {}"
proof -
  have h: "role ownerUser = ESTABLISHMENT" "establishmentId ownerUser = Some ''e1''"
      "user_name ownerUser = ''Cantina''"
    by (simp_all add: ownerUser_def)
  have r: "Failed ''406'' = NoData \<or> Failed ''406'' = (Failed ''406'' :: DBEstablishment Reply)"
    by simp
  show ?thesis
    using h C5_owner_placeholder [of Map.empty "''e1''" ownerUser "Failed ''406''" "''406''"
        scenarioSettings NoData Map.empty, OF _ h(1,2) r]
    by simp
qed

text \<open>
  C5 as stated fails.  When the fetch fails by the timeout (a rejected promise) the owner
  gets null and nothing is stored; and the placeholder stored on an error has no table,
  not one per table of the default settings (ten here).
\<close>

theorem C5_placeholder_counterexample:
  "loadEstablishmentData_hooks scenarioSettings (Some ownerUser) Map.empty ''e1''
       Rejected NoData Map.empty = (Map.empty, None)
   \<and> totalTables scenarioSettings = 10
   \<and> tables (fallbackEst scenarioSettings ownerUser ''e1'') ''1'' = None
   \<and> snd (loadEstablishmentData_hooks scenarioSettings (Some ownerUser) Map.empty ''e1''
             NoData NoData Map.empty) = Some (fallbackEst scenarioSettings ownerUser ''e1'')"
  by (simp add: loadEstablishmentData_hooks_def fallbackEst_def ownerUser_def scenarioSettings_def)

subsection \<open>The table map of a refreshed aggregate\<close>

lemma addCallToTable_lookup:
  "addCallToTable m c k
     = (if table_number c = k
        then Some ((case m k of Some t \<Rightarrow> t | None \<Rightarrow> \<lparr>number = k, calls = []\<rparr>)
                     \<lparr>calls := calls (case m k of Some t \<Rightarrow> t | None \<Rightarrow> \<lparr>number = k, calls = []\<rparr>)
                                @ [toCall c]\<rparr>)
        else m k)"
  by (auto simp: addCallToTable_def Let_def)

lemma groupCalls_fold_lookup:
  "foldl addCallToTable m cs k
   = (if filter (\<lambda>c. table_number c = k) cs = [] then m k
      else Some ((case m k of Some t \<Rightarrow> t | None \<Rightarrow> \<lparr>number = k, calls = []\<rparr>)
                   \<lparr>calls := calls (case m k of Some t \<Rightarrow> t | None \<Rightarrow> \<lparr>number = k, calls = []\<rparr>)
                              @ map toCall (filter (\<lambda>c. table_number c = k) cs)\<rparr>))"
proof (induction cs arbitrary: m)
  case Nil
  show ?case by simp
next
  case (Cons c cs)
  let ?m = "addCallToTable m c"
  have "foldl addCallToTable m (c # cs) k = foldl addCallToTable ?m cs k"
    by simp
  also have "\<dots> = (if filter (\<lambda>c. table_number c = k) cs = [] then ?m k
      else Some ((case ?m k of Some t \<Rightarrow> t | None \<Rightarrow> \<lparr>number = k, calls = []\<rparr>)
                   \<lparr>calls := calls (case ?m k of Some t \<Rightarrow> t | None \<Rightarrow> \<lparr>number = k, calls = []\<rparr>)
                              @ map toCall (filter (\<lambda>c. table_number c = k) cs)\<rparr>))"
    by (rule Cons.IH)
  also have "\<dots> = (if filter (\<lambda>c. table_number c = k) (c # cs) = [] then m k
      else Some ((case m k of Some t \<Rightarrow> t | None \<Rightarrow> \<lparr>number = k, calls = []\<rparr>)
                   \<lparr>calls := calls (case m k of Some t \<Rightarrow> t | None \<Rightarrow> \<lparr>number = k, calls = []\<rparr>)
                              @ map toCall (filter (\<lambda>c. table_number c = k) (c # cs))\<rparr>))"
    by (auto simp: addCallToTable_lookup split: option.splits)
  finally show ?case .
qed

lemma groupCalls_lookup:
  "groupCalls cs k
     = (if k \<in> table_number ` set cs
        then Some \<lparr>number = k, calls = map toCall (filter (\<lambda>c. table_number c = k) cs)\<rparr>
        else None)"
proof -
  have "filter (\<lambda>c. table_number c = k) cs = [] \<longleftrightarrow> k \<notin> table_number ` set cs"
    by (auto simp: filter_empty_conv)
  then show ?thesis
    by (simp add: groupCalls_def groupCalls_fold_lookup)
qed

lemma ensureTable_lookup:
  "ensureTable i m k
     = (if m k \<noteq> None then m k
        else if k = toString i then Some \<lparr>number = k, calls = []\<rparr> else None)"
  by (auto simp: ensureTable_def Let_def simp del: toString.simps)

lemma ensureTables_fold_lookup:
  "fold ensureTable xs m k
   = (if m k \<noteq> None then m k
      else if k \<in> toString ` set xs then Some \<lparr>number = k, calls = []\<rparr> else None)"
proof (induction xs arbitrary: m)
  case Nil
  show ?case by auto
next
  case (Cons x xs)
  let ?m = "ensureTable x m"
  have "fold ensureTable (x # xs) m k = fold ensureTable xs ?m k"
    by simp
  also have "\<dots> = (if ?m k \<noteq> None then ?m k
      else if k \<in> toString ` set xs then Some \<lparr>number = k, calls = []\<rparr> else None)"
    by (rule Cons.IH)
  also have "\<dots> = (if m k \<noteq> None then m k
      else if k \<in> toString ` set (x # xs) then Some \<lparr>number = k, calls = []\<rparr> else None)"
    by (auto simp: ensureTable_lookup simp del: toString.simps)
  finally show ?case .
qed

lemma ensureTables_lookup:
  "ensureTables n m k
     = (if m k \<noteq> None then m k
        else if k \<in> toString ` {1..nat n} then Some \<lparr>number = k, calls = []\<rparr> else None)"
proof -
  have "set [1 ..< Suc (nat n)] = {1..nat n}" by auto
  then show ?thesis
    by (simp only: ensureTables_def ensureTables_fold_lookup)
qed

lemma buildTables_lookup:
  "buildTables D st (Data cs) k
     = (if k \<in> table_number ` set cs
        then Some \<lparr>number = k, calls = map toCall (filter (\<lambda>c. table_number c = k) cs)\<rparr>
        else if k \<in> toString ` {1..nat (effectiveTotalTables D st)}
        then Some \<lparr>number = k, calls = []\<rparr> else None)"
  by (simp add: buildTables_def ensureTables_lookup groupCalls_lookup del: toString.simps)

lemma dom_buildTables:
  "dom (buildTables D st (Data cs))
     = toString ` {1..nat (effectiveTotalTables D st)} \<union> table_number ` set cs"
  by (auto simp: dom_def buildTables_lookup simp del: toString.simps split: if_splits)

lemma effectiveTotalTables_stored:
  "totalTables (case st of Some s \<Rightarrow> s | None \<Rightarrow> D) \<noteq> 0 \<Longrightarrow>
     effectiveTotalTables D st = totalTables (case st of Some s \<Rightarrow> s | None \<Rightarrow> D)"
  by (cases st) (simp_all add: effectiveTotalTables_def)

lemma loadEstablishmentData_hooks_Data:
  "\<exists>fullEst.
      loadEstablishmentData_hooks D cu ests estId (Data est) (Data cs) prev
        = (prev(estId \<mapsto> fullEst), Some fullEst)
      \<and> settings fullEst = (case db_settings est of Some s \<Rightarrow> s | None \<Rightarrow> D)
      \<and> tables fullEst = buildTables D (db_settings est) (Data cs)"
  by (simp add: loadEstablishmentData_hooks_def Let_def)

lemma loadEstablishmentData_part002_Data:
  "\<exists>fullEst.
      loadEstablishmentData_part002 D estId (Data est) (Data cs) prev
        = (prev(estId \<mapsto> fullEst), Some fullEst)
      \<and> settings fullEst = (case db_settings est of Some s \<Rightarrow> s | None \<Rightarrow> D)
      \<and> tables fullEst = buildTables D (db_settings est) (Data cs)"
  by (simp add: loadEstablishmentData_part002_def Let_def)

text \<open>
  C9, as the code has it.  After a successful refresh the table map of the stored
  aggregate has, when \<open>totalTables\<close> of its settings is not 0, exactly the keys
  \<open>1 .. totalTables\<close> and the table numbers of the calls the refresh fetched: in
  \<open>src/hooks/useMockData.ts\<close> the calls of the establishment that are SENT or VIEWED at
  that time, in part_002 all calls of the establishment in the store.
\<close>

theorem C9_table_map:
  "(\<exists>fullEst.
      loadEstablishmentData_hooks D cu ests estId (Data est) (selectCalls_hooks remote estId) prev
        = (prev(estId \<mapsto> fullEst), Some fullEst)
      \<and> (totalTables (settings fullEst) \<noteq> 0 \<longrightarrow>
           dom (tables fullEst)
             = toString ` {1..nat (totalTables (settings fullEst))}
               \<union> table_number ` {c \<in> set (calls_rows remote).
                                    establishment_id c = estId
                                    \<and> (dbc_status c = SENT \<or> dbc_status c = VIEWED)}))
   \<and> (\<exists>fullEst.
      loadEstablishmentData_part002 D estId (Data est) (selectCalls_part002 remote estId) prev
        = (prev(estId \<mapsto> fullEst), Some fullEst)
      \<and> (totalTables (settings fullEst) \<noteq> 0 \<longrightarrow>
           dom (tables fullEst)
             = toString ` {1..nat (totalTables (settings fullEst))}
               \<union> table_number ` {c \<in> set (calls_rows remote). establishment_id c = estId}))"
proof (intro conjI)
  let ?cs = "filter (\<lambda>c. establishment_id c = estId \<and> (dbc_status c = SENT \<or> dbc_status c = VIEWED))
               (calls_rows remote)"
  obtain fullEst where f:
      "loadEstablishmentData_hooks D cu ests estId (Data est) (Data ?cs) prev
         = (prev(estId \<mapsto> fullEst), Some fullEst)"
      "settings fullEst = (case db_settings est of Some s \<Rightarrow> s | None \<Rightarrow> D)"
      "tables fullEst = buildTables D (db_settings est) (Data ?cs)"
    using loadEstablishmentData_hooks_Data by blast
  have "set ?cs = {c \<in> set (calls_rows remote).
                    establishment_id c = estId \<and> (dbc_status c = SENT \<or> dbc_status c = VIEWED)}"
    by auto
  then have "totalTables (settings fullEst) \<noteq> 0 \<Longrightarrow>
        dom (tables fullEst)
          = toString ` {1..nat (totalTables (settings fullEst))}
            \<union> table_number ` {c \<in> set (calls_rows remote).
                                 establishment_id c = estId
                                 \<and> (dbc_status c = SENT \<or> dbc_status c = VIEWED)}"
    using effectiveTotalTables_stored [of D "db_settings est"]
    by (simp add: f(2,3) dom_buildTables del: toString.simps)
  then show "\<exists>fullEst.
      loadEstablishmentData_hooks D cu ests estId (Data est) (selectCalls_hooks remote estId) prev
        = (prev(estId \<mapsto> fullEst), Some fullEst)
      \<and> (totalTables (settings fullEst) \<noteq> 0 \<longrightarrow>
           dom (tables fullEst)
             = toString ` {1..nat (totalTables (settings fullEst))}
               \<union> table_number ` {c \<in> set (calls_rows remote).
                                    establishment_id c = estId
                                    \<and> (dbc_status c = SENT \<or> dbc_status c = VIEWED)})"
    using f(1) unfolding selectCalls_hooks_def by blast
next
  let ?cs = "filter (\<lambda>c. establishment_id c = estId) (calls_rows remote)"
  obtain fullEst where f:
      "loadEstablishmentData_part002 D estId (Data est) (Data ?cs) prev
         = (prev(estId \<mapsto> fullEst), Some fullEst)"
      "settings fullEst = (case db_settings est of Some s \<Rightarrow> s | None \<Rightarrow> D)"
      "tables fullEst = buildTables D (db_settings est) (Data ?cs)"
    using loadEstablishmentData_part002_Data by blast
  have "set ?cs = {c \<in> set (calls_rows remote). establishment_id c = estId}"
    by auto
  then have "totalTables (settings fullEst) \<noteq> 0 \<Longrightarrow>
        dom (tables fullEst)
          = toString ` {1..nat (totalTables (settings fullEst))}
            \<union> table_number ` {c \<in> set (calls_rows remote). establishment_id c = estId}"
    using effectiveTotalTables_stored [of D "db_settings est"]
    by (simp add: f(2,3) dom_buildTables del: toString.simps)
  then show "\<exists>fullEst.
      loadEstablishmentData_part002 D estId (Data est) (selectCalls_part002 remote estId) prev
        = (prev(estId \<mapsto> fullEst), Some fullEst)
      \<and> (totalTables (settings fullEst) \<noteq> 0 \<longrightarrow>
           dom (tables fullEst)
             = toString ` {1..nat (totalTables (settings fullEst))}
               \<union> table_number ` {c \<in> set (calls_rows remote). establishment_id c = estId})"
    using f(1) unfolding selectCalls_part002_def by blast
qed



lemma toString_1: "toString 1 = ''1''" and toString_2: "toString 2 = ''2''"
  by (simp_all add: digitChar_def)

lemma toString_upto_2: "toString ` {1..nat 2} = {''1'', ''2''}"
proof -
  have "{1..nat 2} = {1, 2}" by auto
  then show ?thesis using toString_1 by (simp add: toString_2 del: toString.simps)
qed


text \<open>
  An instance in \<open>src/hooks/useMockData.ts\<close>: two tables configured, active calls on the
  tables 1 and 2.
\<close>

theorem C9_table_map_witness:
  "\<exists>fullEst.
      loadEstablishmentData_hooks scenarioSettings None Map.empty ''e1'' (Data e1Row)
          (selectCalls_hooks demoRemote ''e1'') Map.empty
        = ([''e1'' \<mapsto> fullEst], Some fullEst)
      \<and> totalTables (settings fullEst) = 2
      \<and> dom (tables fullEst) = {''1'', ''2''}"
proof -
  obtain f where f:
      "loadEstablishmentData_hooks scenarioSettings None Map.empty ''e1'' (Data e1Row)
          (selectCalls_hooks demoRemote ''e1'') Map.empty
        = ([''e1'' \<mapsto> f], Some f)"
      "totalTables (settings f) \<noteq> 0 \<longrightarrow>
           dom (tables f)
             = toString ` {1..nat (totalTables (settings f))}
               \<union> table_number ` {c \<in> set (calls_rows demoRemote).
                                    establishment_id c = ''e1''
                                    \<and> (dbc_status c = SENT \<or> dbc_status c = VIEWED)}"
    using C9_table_map [of scenarioSettings None Map.empty "''e1''" e1Row demoRemote Map.empty,
        THEN conjunct1]
    by (elim exE conjE)
  have "map_option (\<lambda>x. totalTables (settings x))
          (snd (loadEstablishmentData_hooks scenarioSettings None Map.empty ''e1'' (Data e1Row)
                  (selectCalls_hooks demoRemote ''e1'') Map.empty)) = Some 2"
    by (simp add: loadEstablishmentData_hooks_def selectCalls_hooks_def Let_def e1Row_def)
  then have tt: "totalTables (settings f) = 2"
    unfolding f(1) by simp
  have c: "{c \<in> set (calls_rows demoRemote).
             establishment_id c = ''e1'' \<and> (dbc_status c = SENT \<or> dbc_status c = VIEWED)}
           = set (filter (\<lambda>c. establishment_id c = ''e1''
                               \<and> (dbc_status c = SENT \<or> dbc_status c = VIEWED))
                    (calls_rows demoRemote))"
    by auto
  have t12: "table_number ` set (filter (\<lambda>c. establishment_id c = ''e1''
                               \<and> (dbc_status c = SENT \<or> dbc_status c = VIEWED))
                    (calls_rows demoRemote)) = {''1'', ''2''}"
    by (simp add: demoRemote_def demoCalls_def dbCall_def)
  have "dom (tables f) = {''1'', ''2''}"
    using f(2) unfolding tt c t12 toString_upto_2
    by simp
  with f(1) tt show ?thesis
    by (intro exI [of _ f] conjI)
qed

text \<open>
  C9 as stated fails on \<open>src/hooks/useMockData.ts\<close>: table 7 has received a call, which
  has been attended since, and the refreshed table map has no entry for it.
\<close>

theorem C9_hooks_counterexample:
  "(\<exists>c\<in>set (calls_rows servedRemote). establishment_id c = ''e1'' \<and> table_number c = ''7'')
   \<and> map_option (\<lambda>fullEst. tables fullEst ''7'')
        (snd (loadEstablishmentData_hooks scenarioSettings None Map.empty ''e1''
                (selectEstablishment servedRemote ''e1'') (selectCalls_hooks servedRemote ''e1'')
                Map.empty))
      = Some None"
proof -
  have sel: "selectEstablishment servedRemote ''e1'' = Data e1Row"
    and cs: "selectCalls_hooks servedRemote ''e1'' = Data []"
    by (simp_all add: selectEstablishment_def selectCalls_hooks_def servedRemote_def e1Row_def
        dbCall_def)
  have n: "effectiveTotalTables scenarioSettings (db_settings e1Row) = 2"
    by (simp add: effectiveTotalTables_def e1Row_def)
  have "buildTables scenarioSettings (db_settings e1Row) (Data []) ''7'' = None"
    unfolding buildTables_lookup n toString_upto_2 by simp
  then have "map_option (\<lambda>fullEst. tables fullEst ''7'')
        (snd (loadEstablishmentData_hooks scenarioSettings None Map.empty ''e1''
                (Data e1Row) (Data []) Map.empty)) = Some None"
    by (simp add: loadEstablishmentData_hooks_def Let_def)
  moreover have "\<exists>c\<in>set (calls_rows servedRemote). establishment_id c = ''e1'' \<and> table_number c = ''7''"
    by (simp add: servedRemote_def dbCall_def)
  ultimately show ?thesis
    unfolding sel cs by simp
qed

subsection \<open>The polling cycle\<close>

text \<open>
  The guard and its release, as the cycle reads and writes them: a cycle whose closure
  holds \<open>isUpdating = true\<close> does nothing, a cycle that runs ends with the state
  \<open>isUpdating = false\<close> (the \<open>finally\<close>), and so does every cycle that settles.
\<close>

lemma cycle_skipped: "isUpdating v \<Longrightarrow> cycle D v sr = sr"
  by (simp add: cycle_def cycle_enter_def split: option.splits)

lemma cycle_releases_guard:
  "currentUser v = Some u \<Longrightarrow> \<not> isUpdating v \<Longrightarrow> isUpdating (fst (cycle D v sr)) = False"
  by (simp add: cycle_def cycle_enter_def cycle_exit_def Let_def)

lemma settle_releases_guard:
  "0 < inFlight p \<Longrightarrow> isUpdating (hook (pollerStep p CycleSettles)) = False"
  by (simp add: cycle_exit_def)

text \<open>
  Were the guard to read the current state (a closure set up anew before every tick),
  one cycle at most would be in flight: the miss is in what the guard reads.
\<close>

lemma fresh_view_one_in_flight:
  assumes "inFlight p \<le> 1" and "isUpdating (hook p) \<longleftrightarrow> inFlight p = 1"
  shows "inFlight (pollerRun p [EffectReruns, TimerFires]) \<le> 1
         \<and> (isUpdating (hook (pollerRun p [EffectReruns, TimerFires]))
              \<longleftrightarrow> inFlight (pollerRun p [EffectReruns, TimerFires]) = 1)
         \<and> inFlight (pollerRun p [CycleSettles]) \<le> 1
         \<and> (isUpdating (hook (pollerRun p [CycleSettles]))
              \<longleftrightarrow> inFlight (pollerRun p [CycleSettles]) = 1)"
  using assms
  by (auto simp: pollerRun_def cycle_enter_def cycle_exit_def)

text \<open>
  C8 fails on the code.  The guard of \<open>cycle\<close> tests the \<open>isUpdating\<close> of the render that
  set the timer up, not the state that \<open>setIsUpdating(true)\<close> writes.  After the first
  tick the state is \<open>isUpdating = true\<close> and the closure still holds \<open>false\<close>, so a second
  tick before the first cycle settles passes the guard: two cycles are in flight.
\<close>

theorem C8_two_cycles_in_flight:
  "isUpdating (view idlePoller) = False
   \<and> isUpdating (hook (pollerRun idlePoller [TimerFires])) = True
   \<and> isUpdating (view (pollerRun idlePoller [TimerFires])) = False
   \<and> inFlight (pollerRun idlePoller [TimerFires]) = 1
   \<and> inFlight (pollerRun idlePoller [TimerFires, TimerFires]) = 2"
  by (simp add: pollerRun_def idlePoller_def ownerSession_def cycle_enter_def)

lemma sendHeartbeat_rows:
  "establishments_rows (snd (cycle_body D v u (st, remote)))
     = (if role u = ESTABLISHMENT
        then (case establishmentId u of
                Some e \<Rightarrow> map (\<lambda>r. if db_id r = e then r\<lparr>is_open := Some True\<rparr> else r)
                            (establishments_rows remote)
              | None \<Rightarrow> establishments_rows remote)
        else establishments_rows remote)"
  by (simp add: cycle_body_def sendHeartbeat_def Let_def split: option.splits Reply.splits)


lemma cycle_heartbeat_rows:
  assumes "currentUser v = Some u" and "role u = ESTABLISHMENT" and "establishmentId u = Some e"
    and "\<not> isUpdating v"
  shows "establishments_rows (snd (cycle D v (st', remote')))
           = map (\<lambda>r. if db_id r = e then r\<lparr>is_open := Some True\<rparr> else r)
               (establishments_rows remote')" 
    using assms
    by (simp add: cycle_def cycle_enter_def Let_def sendHeartbeat_rows)



lemma is_open_after_update:
  "list_all (\<lambda>r. db_id r = e \<longrightarrow> is_open r = b)
     (map (\<lambda>r. if db_id r = e then r\<lparr>is_open := b\<rparr> else r) xs)"
  by (induction xs) simp_all

lemma closeEstablishmentWorkday_rows:
  "establishments_rows (closeEstablishmentWorkday remote e)
     = map (\<lambda>r. if db_id r = e then r\<lparr>is_open := Some False\<rparr> else r) (establishments_rows remote)"
  by (simp add: closeEstablishmentWorkday_def)

text \<open>
  C10.  A cycle that runs (its closure holds \<open>isUpdating = false\<close>) for a user with the
  role ESTABLISHMENT and a known \<open>establishmentId\<close> leaves the store with \<open>is_open = true\<close>
  on the row of that establishment, whatever the row held, and touches no other row.
  So after \<open>closeEstablishmentWorkday\<close> has set \<open>is_open = false\<close>, the next such cycle
  sets it back to true.
\<close>

theorem C10_heartbeat_reopens:
  assumes "currentUser v = Some u" and "role u = ESTABLISHMENT" and "establishmentId u = Some e"
    and "\<not> isUpdating v"
  shows "establishments_rows (snd (cycle D v (st, remote)))
           = map (\<lambda>r. if db_id r = e then r\<lparr>is_open := Some True\<rparr> else r)
               (establishments_rows remote)
         \<and> (\<forall>r\<in>set (establishments_rows (closeEstablishmentWorkday remote e)).
               db_id r = e \<longrightarrow> is_open r = Some False)
         \<and> (\<forall>r\<in>set (establishments_rows
                        (snd (cycle D v (st, closeEstablishmentWorkday remote e)))).
               db_id r = e \<longrightarrow> is_open r = Some True)"
proof (intro conjI)
  show "establishments_rows (snd (cycle D v (st, remote)))
           = map (\<lambda>r. if db_id r = e then r\<lparr>is_open := Some True\<rparr> else r)
               (establishments_rows remote)"
    using assms by (rule cycle_heartbeat_rows)
next
  show "\<forall>r\<in>set (establishments_rows (closeEstablishmentWorkday remote e)).
               db_id r = e \<longrightarrow> is_open r = Some False"
    using is_open_after_update [of e "Some False" "establishments_rows remote"]
    unfolding list_all_iff by (simp only: closeEstablishmentWorkday_rows)
next
  show "\<forall>r\<in>set (establishments_rows
                        (snd (cycle D v (st, closeEstablishmentWorkday remote e)))).
               db_id r = e \<longrightarrow> is_open r = Some True"
    using is_open_after_update
            [of e "Some True" "establishments_rows (closeEstablishmentWorkday remote e)"]
    unfolding list_all_iff by (simp only: cycle_heartbeat_rows [OF assms])
qed

text \<open>
  An instance: the owner of e1 closes the workday, then a cycle runs.
\<close>

theorem C10_heartbeat_reopens_witness:
  "currentUser ownerSession = Some ownerUser \<and> role ownerUser = ESTABLISHMENT
   \<and> establishmentId ownerUser = Some ''e1'' \<and> \<not> isUpdating ownerSession
   \<and> map is_open (establishments_rows (closeEstablishmentWorkday demoRemote ''e1'')) = [Some False]
   \<and> map is_open (establishments_rows
        (snd (cycle scenarioSettings ownerSession
                (ownerSession, closeEstablishmentWorkday demoRemote ''e1''))))
     = [Some True]"
proof -
  have h: "currentUser ownerSession = Some ownerUser" "role ownerUser = ESTABLISHMENT"
      "establishmentId ownerUser = Some ''e1''" "\<not> isUpdating ownerSession"
    by (simp_all add: ownerSession_def ownerUser_def)
  have c: "map is_open (establishments_rows (closeEstablishmentWorkday demoRemote ''e1''))
             = [Some False]"
    by (simp add: closeEstablishmentWorkday_def demoRemote_def e1Row_def)
  have rows: "establishments_rows (closeEstablishmentWorkday demoRemote ''e1'')
             = [e1Row\<lparr>is_open := Some False\<rparr>]"
    by (simp add: closeEstablishmentWorkday_def demoRemote_def e1Row_def)
  show ?thesis
    using h c C10_heartbeat_reopens [OF h, of scenarioSettings ownerSession
        "closeEstablishmentWorkday demoRemote ''e1''"]
    by (simp add: rows e1Row_def)
qed



end
